theory Spec2Isabelle
  imports Main "HOL-Library.Word"
begin

unbundle bit_operations_syntax

section \<open>Data model of rollup.go\<close>

text \<open>
  The program is one Go file, \<^verbatim>\<open>rollup.go\<close>: the pipeline \<^verbatim>\<open>verify()\<close> and the helper
  \<^verbatim>\<open>VerifyDataRootInclusion\<close>. Everything else it calls lives in libraries (the Tendermint
  RPC client, the celestia-app share layout, go-ethereum, the Blobstream contract wrapper).
  The library calls are parameters of the model: a record \<open>world\<close> holds, for every external
  call of the source, the pair \<open>(value, err)\<close> that the call returns for its arguments.
  Each call is made at most once per run and in a fixed order, so one function per call
  describes every possible run.

  Go values: \<^verbatim>\<open>int64\<close>, \<^verbatim>\<open>uint64\<close> and \<^verbatim>\<open>int\<close> (64-bit platform) are \<open>64 word\<close>, so that
  the conversions \<^verbatim>\<open>uint64(tx.Height)\<close> and \<^verbatim>\<open>uint64(blobShareRange.Start)\<close> are the identity
  on the bits, as in Go; \<^verbatim>\<open>uint32\<close> is \<open>32 word\<close>; \<^verbatim>\<open>big.Int\<close> is \<open>int\<close>;
  \<^verbatim>\<open>[]byte\<close> is a list of bytes and \<^verbatim>\<open>[32]byte\<close> a list of bytes of length 32.
  A Go result \<^verbatim>\<open>(T, error)\<close> is a pair whose second component is \<open>None\<close> for \<^verbatim>\<open>nil\<close>.
\<close>

type_synonym byte = "8 word"

datatype error =
    ErrorString string
  | WrapError string error
  | ErrLength
  | InvalidByteError char

text \<open>
  \<^verbatim>\<open>fmt.Errorf(prefix + "%w", err)\<close>: with an error operand the result wraps it (its
  \<^verbatim>\<open>Unwrap\<close> returns the operand); with a \<^verbatim>\<open>nil\<close> operand the verb is invalid, the text
  \<^verbatim>\<open>%!w(<nil>)\<close> is printed in its place and the result is a plain error that wraps nothing.
\<close>

fun Errorf :: "string \<Rightarrow> error option \<Rightarrow> error" where
  "Errorf prefix (Some e) = WrapError prefix e"
| "Errorf prefix None = ErrorString (prefix @ ''%!w(<nil>)'')"

fun Unwrap :: "error \<Rightarrow> error option" where
  "Unwrap (WrapError prefix e) = Some e"
| "Unwrap e = None"

text \<open>How a Go function call ends: it returns a value, or it panics.\<close>

datatype 'a outcome = Returned 'a | Panicked

record ResultTx =
  tx_Height :: "64 word"
  tx_Index :: "32 word"

record ResultBlock =
  block_Txs :: "byte list list"
  block_VersionApp :: "64 word"
  block_DataHash :: "byte list"

record Range =
  range_Start :: "64 word"
  range_End :: "64 word"

record merkleProof =
  Total :: "64 word"
  Index :: "64 word"
  LeafHash :: "byte list"
  Aunts :: "byte list list"

record DataRootTuple =
  Height :: int
  DataRoot :: "byte list"

record BinaryMerkleProof =
  SideNodes :: "byte list list"
  Key :: int
  NumLeaves :: int

text \<open>
  The bound contract: its only method used is \<^verbatim>\<open>VerifyAttestation(&bind.CallOpts{}, nonce,
  tuple, proof)\<close>, a contract call (\<^verbatim>\<open>CallOpts\<close>, not a transaction), which returns
  \<^verbatim>\<open>(bool, error)\<close>.
\<close>

type_synonym Wrappers = "int \<Rightarrow> DataRootTuple \<Rightarrow> BinaryMerkleProof \<Rightarrow> bool \<times> error option"

text \<open>
  The external calls of \<^verbatim>\<open>verify()\<close>. The client handles returned by \<^verbatim>\<open>http.New\<close> and
  \<^verbatim>\<open>ethclient.Dial\<close> are opaque, so only their error is kept. \<open>'sp\<close> is the share proof
  returned by \<^verbatim>\<open>ProveShares\<close>, an opaque library value with the method \<^verbatim>\<open>VerifyProof()\<close>.
  A result returned with a \<^verbatim>\<open>nil\<close> error is taken to be a non-nil pointer.
\<close>

record 'sp world =
  httpNew :: "string \<Rightarrow> string \<Rightarrow> error option"
  trpcTx :: "byte list \<Rightarrow> bool \<Rightarrow> ResultTx \<times> error option"
  trpcBlock :: "64 word \<Rightarrow> ResultBlock \<times> error option"
  BlobShareRange :: "byte list list \<Rightarrow> 64 word \<Rightarrow> 64 word \<Rightarrow> 64 word \<Rightarrow> Range \<times> error option"
  trpcProveShares :: "64 word \<Rightarrow> 64 word \<Rightarrow> 64 word \<Rightarrow> 'sp \<times> error option"
  VerifyProof :: "'sp \<Rightarrow> bool"
  trpcDataRootInclusionProof :: "64 word \<Rightarrow> 64 word \<Rightarrow> 64 word \<Rightarrow> merkleProof \<times> error option"
  ethDial :: "string \<Rightarrow> error option"
  NewWrappers :: "string \<Rightarrow> Wrappers \<times> error option"

text \<open>
  What a run does to the outside, in order: one event per external call of the source,
  with the arguments of the call. \<open>EvTrpcStop\<close> and \<open>EvEthClose\<close> are the two deferred
  releases \<^verbatim>\<open>trpc.Stop()\<close> and \<^verbatim>\<open>ethClient.Close()\<close>.
\<close>

datatype event =
    EvHttpNew string string
  | EvTrpcStop
  | EvTx "byte list" bool
  | EvBlock "64 word"
  | EvBlobShareRange "byte list list" "64 word" "64 word" "64 word"
  | EvProveShares "64 word" "64 word" "64 word"
  | EvVerifyProof
  | EvDataRootInclusionProof "64 word" "64 word" "64 word"
  | EvEthDial string
  | EvEthClose
  | EvNewWrappers string
  | EvVerifyAttestation int DataRootTuple BinaryMerkleProof

section \<open>Constants\<close>

definition txHash :: string where
  "txHash = ''4B122452FA679F15B458271512816B933803D5870919F67969B4D62221D70346''"

definition blobIndex :: "64 word" where
  "blobIndex = 0"

definition rpcEndpoint :: string where
  "rpcEndpoint = ''tcp://consensus.lunaroasis.net:26657''"

definition evmRPC :: string where
  "evmRPC = ''https://eth-goerli.public.blastapi.io''"

definition contractAddr :: string where
  "contractAddr = ''0x046120E6c6C48C05627FB369756F5f44858950a5''"

definition dataCommitmentStartBlock :: "64 word" where
  "dataCommitmentStartBlock = 105001"

definition dataCommitmentEndBlock :: "64 word" where
  "dataCommitmentEndBlock = 106001"

definition dataCommitmentNonce :: "64 word" where
  "dataCommitmentNonce = 106"

section \<open>Library functions with a fixed meaning\<close>

text \<open>
  \<^verbatim>\<open>hex.DecodeString\<close> of the Go standard library: it reads the string two characters at a
  time, accepts the digits and the letters a-f in either case, stops with
  \<^verbatim>\<open>InvalidByteError\<close> at the first other character and with \<^verbatim>\<open>ErrLength\<close> on an odd
  length; it returns the bytes decoded before the error.
\<close>

definition fromHexChar :: "char \<Rightarrow> byte option" where
  "fromHexChar c =
     (let n = (of_char c :: nat) in
      if 48 \<le> n \<and> n \<le> 57 then Some (of_nat (n - 48))
      else if 97 \<le> n \<and> n \<le> 102 then Some (of_nat (n - 97 + 10))
      else if 65 \<le> n \<and> n \<le> 70 then Some (of_nat (n - 65 + 10))
      else None)"

fun hexDecode :: "string \<Rightarrow> byte list \<Rightarrow> byte list \<times> error option" where
  "hexDecode [] dst = (dst, None)"
| "hexDecode [p] dst =
     (case fromHexChar p of
        None \<Rightarrow> (dst, Some (InvalidByteError p))
      | Some a \<Rightarrow> (dst, Some ErrLength))"
| "hexDecode (p # q # src) dst =
     (case fromHexChar p of
        None \<Rightarrow> (dst, Some (InvalidByteError p))
      | Some a \<Rightarrow>
          (case fromHexChar q of
             None \<Rightarrow> (dst, Some (InvalidByteError q))
           | Some b \<Rightarrow> hexDecode src (dst @ [push_bit 4 a OR b])))"

definition hexDecodeString :: "string \<Rightarrow> byte list \<times> error option" where
  "hexDecodeString s = hexDecode s []"

text \<open>
  The conversion \<^verbatim>\<open>*(*[32]byte)(s)\<close> of a slice to an array: Go panics when the slice
  has fewer than 32 elements, and otherwise copies its first 32 elements.
\<close>

definition toArray32 :: "byte list \<Rightarrow> byte list option" where
  "toArray32 s = (if length s < 32 then None else Some (take 32 s))"

section \<open>VerifyDataRootInclusion\<close>

text \<open>
  The loop \<^verbatim>\<open>for i, aunt := range proof.Aunts { sideNodes[i] = *(*[32]byte)(aunt) }\<close>:
  the index, the aunts still to visit and the slice written so far. \<open>None\<close> is the panic
  of a conversion.
\<close>

fun rangeAunts :: "nat \<Rightarrow> byte list list \<Rightarrow> byte list list \<Rightarrow> byte list list option" where
  "rangeAunts i [] sideNodes = Some sideNodes"
| "rangeAunts i (aunt # rest) sideNodes =
     (case toArray32 aunt of
        None \<Rightarrow> None
      | Some a \<Rightarrow> rangeAunts (Suc i) rest (sideNodes[i := a]))"

text \<open>\<^verbatim>\<open>make([][32]byte, n)\<close>: n arrays of 32 zero bytes.\<close>

definition makeSideNodes :: "nat \<Rightarrow> byte list list" where
  "makeSideNodes n = replicate n (replicate 32 0)"

definition VerifyDataRootInclusion ::
  "Wrappers \<Rightarrow> 64 word \<Rightarrow> 64 word \<Rightarrow> byte list \<Rightarrow> merkleProof
     \<Rightarrow> (bool \<times> error option) outcome \<times> event list" where
  "VerifyDataRootInclusion blobstreamWrapper height nonce dataRoot proof =
     (case toArray32 dataRoot of
        None \<Rightarrow> (Panicked, [])
      | Some root \<Rightarrow>
          (let tuple = \<lparr>Height = sint height, DataRoot = root\<rparr> in
           case rangeAunts 0 (Aunts proof) (makeSideNodes (length (Aunts proof))) of
             None \<Rightarrow> (Panicked, [])
           | Some sideNodes \<Rightarrow>
               (let wrappedProof =
                      \<lparr>SideNodes = sideNodes, Key = sint (Index proof),
                       NumLeaves = sint (Total proof)\<rparr>;
                    (valid, err) = blobstreamWrapper (sint nonce) tuple wrappedProof
                in (Returned (valid, err),
                    [EvVerifyAttestation (sint nonce) tuple wrappedProof]))))"

section \<open>verify\<close>

text \<open>
  A run yields how \<^verbatim>\<open>verify()\<close> ended (the error it returned, \<open>None\<close> for \<^verbatim>\<open>nil\<close>, or a
  panic) and the events in order. \<open>emit\<close> puts a call in front of what follows it,
  \<open>ret\<close> is \<^verbatim>\<open>return fmt.Errorf(...)\<close>, and \<open>deferred\<close> runs a deferred call when the rest
  of the function has ended, by a return or by a panic.
\<close>

type_synonym run = "error option outcome \<times> event list"

definition emit :: "event \<Rightarrow> run \<Rightarrow> run" where
  "emit ev r = (fst r, ev # snd r)"

definition ret :: "error \<Rightarrow> run" where
  "ret e = (Returned (Some e), [])"

definition deferred :: "event \<Rightarrow> run \<Rightarrow> run" where
  "deferred ev r = (fst r, snd r @ [ev])"

text \<open>Lines 98 to 108: after \<^verbatim>\<open>defer ethClient.Close()\<close>.\<close>

definition verify_eth :: "'sp world \<Rightarrow> ResultTx \<Rightarrow> ResultBlock \<Rightarrow> merkleProof \<Rightarrow> run" where
  "verify_eth w tx block dcProof =
     (let contractAddress = contractAddr;
          (blobstreamWrapper, err) = NewWrappers w contractAddress
      in emit (EvNewWrappers contractAddress)
           (if err \<noteq> None then ret (Errorf ''failed to fetch BlobstreamX contract: '' err)
            else
              (case VerifyDataRootInclusion blobstreamWrapper (tx_Height tx)
                      dataCommitmentNonce (block_DataHash block) dcProof of
                 (Panicked, evs) \<Rightarrow> (Panicked, evs)
               | (Returned res, evs) \<Rightarrow> (Returned None, evs))))"

text \<open>Lines 55 to 96: after \<^verbatim>\<open>defer trpc.Stop()\<close>. The variable \<open>err\<close> is the source's.\<close>

definition verify_trpc :: "'sp world \<Rightarrow> byte list \<Rightarrow> run" where
  "verify_trpc w txHashBz =
     (let (tx, err) = trpcTx w txHashBz True in
      emit (EvTx txHashBz True)
        (if err \<noteq> None then ret (Errorf ''failed to fetch transaction: '' err)
         else
           let (block, err) = trpcBlock w (tx_Height tx) in
           emit (EvBlock (tx_Height tx))
             (if err \<noteq> None then ret (Errorf ''failed to fetch block: '' err)
              else
                let (blobShareRange, err) =
                      BlobShareRange w (block_Txs block) (ucast (tx_Index tx)) blobIndex
                        (block_VersionApp block) in
                emit (EvBlobShareRange (block_Txs block) (ucast (tx_Index tx)) blobIndex
                        (block_VersionApp block))
                  (if err \<noteq> None then ret (Errorf ''failed to get blob share range: '' err)
                   else
                     let (shareProofs, err) =
                           trpcProveShares w (tx_Height tx) (range_Start blobShareRange)
                             (range_End blobShareRange) in
                     emit (EvProveShares (tx_Height tx) (range_Start blobShareRange)
                             (range_End blobShareRange))
                       (if err \<noteq> None then ret (Errorf ''failed to get share proofs: '' err)
                        else
                          emit EvVerifyProof
                            (if \<not> VerifyProof w shareProofs
                             then ret (Errorf ''failed to verify share proofs: '' err)
                             else
                               let (dcProof, err) =
                                     trpcDataRootInclusionProof w (tx_Height tx)
                                       dataCommitmentStartBlock dataCommitmentEndBlock in
                               emit (EvDataRootInclusionProof (tx_Height tx)
                                       dataCommitmentStartBlock dataCommitmentEndBlock)
                                 (if err \<noteq> None
                                  then ret (Errorf
                                    ''failed to generate data root inclusion proof: '' err)
                                  else
                                    let err = ethDial w evmRPC in
                                    emit (EvEthDial evmRPC)
                                      (if err \<noteq> None
                                       then ret (Errorf
                                         ''failed to connect to Ethereum client: '' err)
                                       else deferred EvEthClose
                                              (verify_eth w tx block dcProof)))))))))"

text \<open>
  Lines 44 to 53, as a function of what \<^verbatim>\<open>hex.DecodeString(txHash)\<close> returned, and
  \<^verbatim>\<open>verify()\<close> itself.
\<close>

definition verify_decoded :: "byte list \<times> error option \<Rightarrow> 'sp world \<Rightarrow> run" where
  "verify_decoded d w =
     (let (txHashBz, err) = d in
      if err \<noteq> None then ret (Errorf ''failed to decode transaction hash: '' err)
      else
        let err = httpNew w rpcEndpoint ''/websocket'' in
        emit (EvHttpNew rpcEndpoint ''/websocket'')
          (if err \<noteq> None then ret (Errorf ''failed to connect to Celestia: '' err)
           else deferred EvTrpcStop (verify_trpc w txHashBz)))"

definition verify :: "'sp world \<Rightarrow> run" where
  "verify w = verify_decoded (hexDecodeString txHash) w"

text \<open>The local variable \<^verbatim>\<open>txHashBz\<close> of \<^verbatim>\<open>verify()\<close>.\<close>

definition txHashBz :: "byte list" where
  "txHashBz = fst (hexDecodeString txHash)"

section \<open>Vocabulary of the properties\<close>

text \<open>The two deferred calls that give a connection back.\<close>

definition is_release :: "event \<Rightarrow> bool" where
  "is_release ev = (ev = EvTrpcStop \<or> ev = EvEthClose)"

section \<open>Sample runs\<close>

text \<open>
  Concrete answers of the collaborators, used to instantiate the theorems: a transaction
  at height 105500, inside the committed range, with a two-aunt inclusion proof of
  32-byte hashes. \<open>sample_world wr\<close> is the world in which every call succeeds and the
  bound contract behaves as \<open>wr\<close>; share proofs are numbered, and proof 0 verifies.
\<close>

definition sample_tx :: ResultTx where
  "sample_tx = \<lparr>tx_Height = 105500, tx_Index = 1\<rparr>"

definition sample_block :: ResultBlock where
  "sample_block =
     \<lparr>block_Txs = [[1, 2, 3], [4, 5]], block_VersionApp = 1,
      block_DataHash = replicate 32 7\<rparr>"

definition sample_range :: Range where
  "sample_range = \<lparr>range_Start = 2, range_End = 5\<rparr>"

definition sample_proof :: merkleProof where
  "sample_proof =
     \<lparr>Total = 1000, Index = 499, LeafHash = replicate 32 1,
      Aunts = [replicate 32 2, replicate 32 3]\<rparr>"

definition sample_world :: "Wrappers \<Rightarrow> nat world" where
  "sample_world wr =
     \<lparr>httpNew = (\<lambda>remote endpoint. None),
      trpcTx = (\<lambda>hash prove. (sample_tx, None)),
      trpcBlock = (\<lambda>height. (sample_block, None)),
      BlobShareRange = (\<lambda>txs txIndex blobIdx appVersion. (sample_range, None)),
      trpcProveShares = (\<lambda>height startShare endShare. (0, None)),
      VerifyProof = (\<lambda>sp. sp = 0),
      trpcDataRootInclusionProof = (\<lambda>height firstBlock lastBlock. (sample_proof, None)),
      ethDial = (\<lambda>url. None),
      NewWrappers = (\<lambda>address. (wr, None))\<rparr>"

text \<open>A contract that accepts every attestation, and one that rejects every one.\<close>

definition accepting :: Wrappers where
  "accepting = (\<lambda>nonce tuple proof. (True, None))"

definition rejecting :: Wrappers where
  "rejecting = (\<lambda>nonce tuple proof. (False, None))"

definition reverting :: Wrappers where
  "reverting = (\<lambda>nonce tuple proof. (False, Some (ErrorString ''execution reverted'')))"

text \<open>An inclusion proof whose only aunt has 33 bytes, and one whose only aunt has 31.\<close>

definition long_aunt_proof :: merkleProof where
  "long_aunt_proof =
     \<lparr>Total = 2, Index = 1, LeafHash = replicate 32 1, Aunts = [replicate 32 9 @ [1]]\<rparr>"

definition short_aunt_proof :: merkleProof where
  "short_aunt_proof =
     \<lparr>Total = 2, Index = 1, LeafHash = replicate 32 1, Aunts = [replicate 31 9]\<rparr>"

text \<open>
  The sample world with one stage broken: the call of that stage returns the error
  \<open>rpc_failure\<close>, and at \<open>CheckShares\<close> the node returns share proof 1, which does not
  verify.
\<close>

datatype stage =
    Connect | FetchTx | FetchBlock | ShareRange | FetchShares | CheckShares
  | FetchDataRootProof | Dial | Bind

definition rpc_failure :: error where
  "rpc_failure = ErrorString ''rpc failure''"

definition fails :: "stage \<Rightarrow> stage \<Rightarrow> error option" where
  "fails broken s = (if broken = s then Some rpc_failure else None)"

definition failing_at :: "stage \<Rightarrow> nat world" where
  "failing_at broken =
     \<lparr>httpNew = (\<lambda>remote endpoint. fails broken Connect),
      trpcTx = (\<lambda>hash prove. (sample_tx, fails broken FetchTx)),
      trpcBlock = (\<lambda>height. (sample_block, fails broken FetchBlock)),
      BlobShareRange = (\<lambda>txs txIndex blobIdx appVersion. (sample_range, fails broken ShareRange)),
      trpcProveShares =
        (\<lambda>height startShare endShare.
           (if broken = CheckShares then 1 else 0, fails broken FetchShares)),
      VerifyProof = (\<lambda>sp. sp = 0),
      trpcDataRootInclusionProof =
        (\<lambda>height firstBlock lastBlock. (sample_proof, fails broken FetchDataRootProof)),
      ethDial = (\<lambda>url. fails broken Dial),
      NewWrappers = (\<lambda>address. (accepting, fails broken Bind))\<rparr>"

section \<open>The runs of the two functions in normal form\<close>

lemma hexDecodeString_txHash:
  "hexDecodeString txHash =
     ([0x4B, 0x12, 0x24, 0x52, 0xFA, 0x67, 0x9F, 0x15, 0xB4, 0x58, 0x27, 0x15, 0x12, 0x81,
       0x6B, 0x93, 0x38, 0x03, 0xD5, 0x87, 0x09, 0x19, 0xF6, 0x79, 0x69, 0xB4, 0xD6, 0x22,
       0x21, 0xD7, 0x03, 0x46], None)"
  by (simp add: hexDecodeString_def txHash_def fromHexChar_def)

lemma hexDecodeString_txHash_ok: "hexDecodeString txHash = (txHashBz, None)"
  by (simp add: txHashBz_def hexDecodeString_txHash)

text \<open>
  The loop invariant: the slots below \<open>i\<close> are kept, the slots from \<open>i\<close> on receive the
  first 32 bytes of the remaining aunts, in their order.
\<close>

lemma rangeAunts_gen:
  "length sideNodes = i + length rest \<Longrightarrow>
   rangeAunts i rest sideNodes =
     (if \<forall>a \<in> set rest. 32 \<le> length a
      then Some (take i sideNodes @ map (take 32) rest) else None)"
proof (induction rest arbitrary: i sideNodes)
  case Nil
  then show ?case by simp
next
  case (Cons aunt rest)
  show ?case
  proof (cases "length aunt < 32")
    case True
    then show ?thesis by (auto simp: toArray32_def)
  next
    case False
    have len: "length (sideNodes[i := take 32 aunt]) = Suc i + length rest"
      using Cons.prems by simp
    have "take (Suc i) (sideNodes[i := take 32 aunt]) = take i sideNodes @ [take 32 aunt]"
      using Cons.prems by (simp add: take_Suc_conv_app_nth)
    with False Cons.IH [OF len] show ?thesis
      by (simp add: toArray32_def)
  qed
qed

lemma rangeAunts_make:
  "rangeAunts 0 aunts (makeSideNodes (length aunts)) =
     (if \<forall>a \<in> set aunts. 32 \<le> length a then Some (map (take 32) aunts) else None)"
  using rangeAunts_gen [of "makeSideNodes (length aunts)" 0 aunts]
  by (simp add: makeSideNodes_def)

lemma VerifyDataRootInclusion_run:
  "VerifyDataRootInclusion wr h n dataRoot p =
     (if length dataRoot < 32 \<or> (\<exists>a \<in> set (Aunts p). length a < 32) then (Panicked, [])
      else (Returned
              (wr (sint n) \<lparr>Height = sint h, DataRoot = take 32 dataRoot\<rparr>
                 \<lparr>SideNodes = map (take 32) (Aunts p), Key = sint (Index p),
                  NumLeaves = sint (Total p)\<rparr>),
            [EvVerifyAttestation (sint n) \<lparr>Height = sint h, DataRoot = take 32 dataRoot\<rparr>
               \<lparr>SideNodes = map (take 32) (Aunts p), Key = sint (Index p),
                NumLeaves = sint (Total p)\<rparr>]))"
  by (auto simp: VerifyDataRootInclusion_def toArray32_def rangeAunts_make Let_def not_less
           split: prod.splits)

lemma verify_eth_run:
  assumes "NewWrappers w contractAddr = (wr, errBind)"
  shows "verify_eth w tx block dc =
     (case errBind of
        Some e \<Rightarrow>
          (Returned (Some (WrapError ''failed to fetch BlobstreamX contract: '' e)),
           [EvNewWrappers contractAddr])
      | None \<Rightarrow>
          if length (block_DataHash block) < 32 \<or> (\<exists>a \<in> set (Aunts dc). length a < 32)
          then (Panicked, [EvNewWrappers contractAddr])
          else (Returned None,
                [EvNewWrappers contractAddr,
                 EvVerifyAttestation (sint dataCommitmentNonce)
                   \<lparr>Height = sint (tx_Height tx), DataRoot = take 32 (block_DataHash block)\<rparr>
                   \<lparr>SideNodes = map (take 32) (Aunts dc), Key = sint (Index dc),
                    NumLeaves = sint (Total dc)\<rparr>]))"
  using assms
  by (simp add: verify_eth_def VerifyDataRootInclusion_run emit_def ret_def
           split: option.splits)

lemma verify_trpc_run:
  assumes "trpcTx w bz True = (tx, errTx)"
    and "trpcBlock w (tx_Height tx) = (block, errBlock)"
    and "BlobShareRange w (block_Txs block) (ucast (tx_Index tx)) blobIndex
           (block_VersionApp block) = (rng, errRange)"
    and "trpcProveShares w (tx_Height tx) (range_Start rng) (range_End rng) = (sp, errShares)"
    and "trpcDataRootInclusionProof w (tx_Height tx) dataCommitmentStartBlock
           dataCommitmentEndBlock = (dc, errDc)"
  defines "e1 \<equiv> EvTx bz True"
    and "e2 \<equiv> EvBlock (tx_Height tx)"
    and "e3 \<equiv> EvBlobShareRange (block_Txs block) (ucast (tx_Index tx)) blobIndex
                 (block_VersionApp block)"
    and "e4 \<equiv> EvProveShares (tx_Height tx) (range_Start rng) (range_End rng)"
    and "e6 \<equiv> EvDataRootInclusionProof (tx_Height tx) dataCommitmentStartBlock
                 dataCommitmentEndBlock"
  shows "verify_trpc w bz =
    (case errTx of
       Some e \<Rightarrow> (Returned (Some (WrapError ''failed to fetch transaction: '' e)), [e1])
     | None \<Rightarrow>
    (case errBlock of
       Some e \<Rightarrow> (Returned (Some (WrapError ''failed to fetch block: '' e)), [e1, e2])
     | None \<Rightarrow>
    (case errRange of
       Some e \<Rightarrow>
         (Returned (Some (WrapError ''failed to get blob share range: '' e)), [e1, e2, e3])
     | None \<Rightarrow>
    (case errShares of
       Some e \<Rightarrow>
         (Returned (Some (WrapError ''failed to get share proofs: '' e)), [e1, e2, e3, e4])
     | None \<Rightarrow>
    if \<not> VerifyProof w sp
    then (Returned (Some (ErrorString ''failed to verify share proofs: %!w(<nil>)'')),
          [e1, e2, e3, e4, EvVerifyProof])
    else
    (case errDc of
       Some e \<Rightarrow>
         (Returned (Some (WrapError ''failed to generate data root inclusion proof: '' e)),
          [e1, e2, e3, e4, EvVerifyProof, e6])
     | None \<Rightarrow>
    (case ethDial w evmRPC of
       Some e \<Rightarrow>
         (Returned (Some (WrapError ''failed to connect to Ethereum client: '' e)),
          [e1, e2, e3, e4, EvVerifyProof, e6, EvEthDial evmRPC])
     | None \<Rightarrow>
         (fst (verify_eth w tx block dc),
          [e1, e2, e3, e4, EvVerifyProof, e6, EvEthDial evmRPC]
            @ snd (verify_eth w tx block dc) @ [EvEthClose])))))))"
  using assms(1-5) unfolding e1_def e2_def e3_def e4_def e6_def
  by (simp add: verify_trpc_def emit_def ret_def deferred_def split: option.splits)

lemma verify_connect:
  "verify w =
     (case httpNew w rpcEndpoint ''/websocket'' of
        Some e \<Rightarrow>
          (Returned (Some (WrapError ''failed to connect to Celestia: '' e)),
           [EvHttpNew rpcEndpoint ''/websocket''])
      | None \<Rightarrow>
          (fst (verify_trpc w txHashBz),
           EvHttpNew rpcEndpoint ''/websocket'' # snd (verify_trpc w txHashBz) @ [EvTrpcStop]))"
  by (simp add: verify_def verify_decoded_def hexDecodeString_txHash_ok emit_def ret_def
        deferred_def split: option.splits)

text \<open>Every run of \<^verbatim>\<open>verify()\<close>, by the results of its calls.\<close>

lemma verify_run:
  fixes w :: "'sp world"
  assumes "trpcTx w txHashBz True = (tx, errTx)"
    and "trpcBlock w (tx_Height tx) = (block, errBlock)"
    and "BlobShareRange w (block_Txs block) (ucast (tx_Index tx)) blobIndex
           (block_VersionApp block) = (rng, errRange)"
    and "trpcProveShares w (tx_Height tx) (range_Start rng) (range_End rng) = (sp, errShares)"
    and "trpcDataRootInclusionProof w (tx_Height tx) dataCommitmentStartBlock
           dataCommitmentEndBlock = (dc, errDc)"
    and "NewWrappers w contractAddr = (wr, errBind)"
  defines "e0 \<equiv> EvHttpNew rpcEndpoint ''/websocket''"
    and "e1 \<equiv> EvTx txHashBz True"
    and "e2 \<equiv> EvBlock (tx_Height tx)"
    and "e3 \<equiv> EvBlobShareRange (block_Txs block) (ucast (tx_Index tx)) blobIndex
                 (block_VersionApp block)"
    and "e4 \<equiv> EvProveShares (tx_Height tx) (range_Start rng) (range_End rng)"
    and "e5 \<equiv> EvVerifyProof"
    and "e6 \<equiv> EvDataRootInclusionProof (tx_Height tx) dataCommitmentStartBlock
                 dataCommitmentEndBlock"
    and "e7 \<equiv> EvEthDial evmRPC"
    and "e8 \<equiv> EvNewWrappers contractAddr"
  shows "verify w =
    (case httpNew w rpcEndpoint ''/websocket'' of
       Some e \<Rightarrow> (Returned (Some (WrapError ''failed to connect to Celestia: '' e)), [e0])
     | None \<Rightarrow>
    (case errTx of
       Some e \<Rightarrow>
         (Returned (Some (WrapError ''failed to fetch transaction: '' e)), [e0, e1, EvTrpcStop])
     | None \<Rightarrow>
    (case errBlock of
       Some e \<Rightarrow>
         (Returned (Some (WrapError ''failed to fetch block: '' e)), [e0, e1, e2, EvTrpcStop])
     | None \<Rightarrow>
    (case errRange of
       Some e \<Rightarrow>
         (Returned (Some (WrapError ''failed to get blob share range: '' e)),
          [e0, e1, e2, e3, EvTrpcStop])
     | None \<Rightarrow>
    (case errShares of
       Some e \<Rightarrow>
         (Returned (Some (WrapError ''failed to get share proofs: '' e)),
          [e0, e1, e2, e3, e4, EvTrpcStop])
     | None \<Rightarrow>
    if \<not> VerifyProof w sp
    then (Returned (Some (ErrorString ''failed to verify share proofs: %!w(<nil>)'')),
          [e0, e1, e2, e3, e4, e5, EvTrpcStop])
    else
    (case errDc of
       Some e \<Rightarrow>
         (Returned (Some (WrapError ''failed to generate data root inclusion proof: '' e)),
          [e0, e1, e2, e3, e4, e5, e6, EvTrpcStop])
     | None \<Rightarrow>
    (case ethDial w evmRPC of
       Some e \<Rightarrow>
         (Returned (Some (WrapError ''failed to connect to Ethereum client: '' e)),
          [e0, e1, e2, e3, e4, e5, e6, e7, EvTrpcStop])
     | None \<Rightarrow>
    (case errBind of
       Some e \<Rightarrow>
         (Returned (Some (WrapError ''failed to fetch BlobstreamX contract: '' e)),
          [e0, e1, e2, e3, e4, e5, e6, e7, e8, EvEthClose, EvTrpcStop])
     | None \<Rightarrow>
    if length (block_DataHash block) < 32 \<or> (\<exists>a \<in> set (Aunts dc). length a < 32)
    then (Panicked, [e0, e1, e2, e3, e4, e5, e6, e7, e8, EvEthClose, EvTrpcStop])
    else (Returned None,
          [e0, e1, e2, e3, e4, e5, e6, e7, e8,
           EvVerifyAttestation (sint dataCommitmentNonce)
             \<lparr>Height = sint (tx_Height tx), DataRoot = take 32 (block_DataHash block)\<rparr>
             \<lparr>SideNodes = map (take 32) (Aunts dc), Key = sint (Index dc),
              NumLeaves = sint (Total dc)\<rparr>,
           EvEthClose, EvTrpcStop])))))))))"
  unfolding e0_def e1_def e2_def e3_def e4_def e5_def e6_def e7_def e8_def
  by (simp add: verify_connect verify_trpc_run [OF assms(1-5)] verify_eth_run [OF assms(6)]
           split: option.splits)

text \<open>The calls of a run, without the value returned: one of ten lists.\<close>

lemma verify_trace:
  fixes w :: "'sp world"
  assumes r: "trpcTx w txHashBz True = (tx, errTx)"
       "trpcBlock w (tx_Height tx) = (block, errBlock)"
       "BlobShareRange w (block_Txs block) (ucast (tx_Index tx)) blobIndex
           (block_VersionApp block) = (rng, errRange)"
       "trpcProveShares w (tx_Height tx) (range_Start rng) (range_End rng) = (sp, errShares)"
       "trpcDataRootInclusionProof w (tx_Height tx) dataCommitmentStartBlock
           dataCommitmentEndBlock = (dc, errDc)"
       "NewWrappers w contractAddr = (wr, errBind)"
  defines "e0 \<equiv> EvHttpNew rpcEndpoint ''/websocket''"
    and "e1 \<equiv> EvTx txHashBz True"
    and "e2 \<equiv> EvBlock (tx_Height tx)"
    and "e3 \<equiv> EvBlobShareRange (block_Txs block) (ucast (tx_Index tx)) blobIndex
                 (block_VersionApp block)"
    and "e4 \<equiv> EvProveShares (tx_Height tx) (range_Start rng) (range_End rng)"
    and "e5 \<equiv> EvVerifyProof"
    and "e6 \<equiv> EvDataRootInclusionProof (tx_Height tx) dataCommitmentStartBlock
                 dataCommitmentEndBlock"
    and "e7 \<equiv> EvEthDial evmRPC"
    and "e8 \<equiv> EvNewWrappers contractAddr"
  shows "(httpNew w rpcEndpoint ''/websocket'' \<noteq> None \<and> snd (verify w) = [e0])
     \<or> (httpNew w rpcEndpoint ''/websocket'' = None
        \<and> (snd (verify w) = [e0, e1, EvTrpcStop]
           \<or> snd (verify w) = [e0, e1, e2, EvTrpcStop]
           \<or> snd (verify w) = [e0, e1, e2, e3, EvTrpcStop]
           \<or> snd (verify w) = [e0, e1, e2, e3, e4, EvTrpcStop]
           \<or> snd (verify w) = [e0, e1, e2, e3, e4, e5, EvTrpcStop]
           \<or> snd (verify w) = [e0, e1, e2, e3, e4, e5, e6, EvTrpcStop]
           \<or> (ethDial w evmRPC \<noteq> None
              \<and> snd (verify w) = [e0, e1, e2, e3, e4, e5, e6, e7, EvTrpcStop])
           \<or> (ethDial w evmRPC = None
              \<and> (snd (verify w) = [e0, e1, e2, e3, e4, e5, e6, e7, e8, EvEthClose, EvTrpcStop]
                 \<or> snd (verify w) =
                     [e0, e1, e2, e3, e4, e5, e6, e7, e8,
                      EvVerifyAttestation (sint dataCommitmentNonce)
                        \<lparr>Height = sint (tx_Height tx),
                         DataRoot = take 32 (block_DataHash block)\<rparr>
                        \<lparr>SideNodes = map (take 32) (Aunts dc), Key = sint (Index dc),
                         NumLeaves = sint (Total dc)\<rparr>,
                      EvEthClose, EvTrpcStop]))))"
  unfolding e0_def e1_def e2_def e3_def e4_def e5_def e6_def e7_def e8_def
  by (simp add: verify_run [OF r] split: option.splits)

text \<open>Every world has results to name.\<close>

lemma name_results:
  fixes w :: "'sp world"
  obtains tx errTx block errBlock rng errRange sp errShares dc errDc wr errBind where
    "trpcTx w txHashBz True = (tx, errTx)"
    and "trpcBlock w (tx_Height tx) = (block, errBlock)"
    and "BlobShareRange w (block_Txs block) (ucast (tx_Index tx)) blobIndex
           (block_VersionApp block) = (rng, errRange)"
    and "trpcProveShares w (tx_Height tx) (range_Start rng) (range_End rng) = (sp, errShares)"
    and "trpcDataRootInclusionProof w (tx_Height tx) dataCommitmentStartBlock
           dataCommitmentEndBlock = (dc, errDc)"
    and "NewWrappers w contractAddr = (wr, errBind)"
  by (metis surj_pair)

section \<open>Claims about VerifyDataRootInclusion\<close>

text \<open>
  C9. \<^verbatim>\<open>VerifyDataRootInclusion\<close> panics exactly when \<open>dataRoot\<close> or one of the aunts of
  the proof has fewer than 32 bytes, and then before the contract is called; when it does
  not panic, the data root and the side nodes handed to the contract are the first 32
  bytes of \<open>dataRoot\<close> and of each aunt, so a longer input is cut and not rejected.
\<close>

theorem VerifyDataRootInclusion_panics_iff_short:
  "(fst (VerifyDataRootInclusion wr h n dataRoot p) = Panicked \<longleftrightarrow>
      length dataRoot < 32 \<or> (\<exists>a \<in> set (Aunts p). length a < 32))
   \<and> (fst (VerifyDataRootInclusion wr h n dataRoot p) = Panicked \<longrightarrow>
        snd (VerifyDataRootInclusion wr h n dataRoot p) = [])
   \<and> (fst (VerifyDataRootInclusion wr h n dataRoot p) \<noteq> Panicked \<longrightarrow>
        snd (VerifyDataRootInclusion wr h n dataRoot p) =
          [EvVerifyAttestation (sint n) \<lparr>Height = sint h, DataRoot = take 32 dataRoot\<rparr>
             \<lparr>SideNodes = map (take 32) (Aunts p), Key = sint (Index p),
              NumLeaves = sint (Total p)\<rparr>])"
  by (simp add: VerifyDataRootInclusion_run)

theorem VerifyDataRootInclusion_panics_iff_short_witness:
  "fst (VerifyDataRootInclusion accepting 105500 106 (replicate 31 7) sample_proof) = Panicked
   \<and> snd (VerifyDataRootInclusion accepting 105500 106 (replicate 31 7) sample_proof) = []
   \<and> fst (VerifyDataRootInclusion accepting 105500 106 (replicate 32 7) short_aunt_proof)
       = Panicked
   \<and> fst (VerifyDataRootInclusion accepting 105500 106 (replicate 32 7 @ [8]) long_aunt_proof)
       \<noteq> Panicked
   \<and> snd (VerifyDataRootInclusion accepting 105500 106 (replicate 32 7 @ [8]) long_aunt_proof)
       = [EvVerifyAttestation 106 \<lparr>Height = 105500, DataRoot = replicate 32 7\<rparr>
            \<lparr>SideNodes = [replicate 32 9], Key = 1, NumLeaves = 2\<rparr>]"
proof -
  have short_root: "length (replicate 31 (7::byte)) < 32"
    by simp
  have short_aunt: "\<exists>a \<in> set (Aunts short_aunt_proof). length a < 32"
    by (simp add: short_aunt_proof_def)
  have long_ok: "\<not> (length (replicate 32 (7::byte) @ [8]) < 32
                   \<or> (\<exists>a \<in> set (Aunts long_aunt_proof). length a < 32))"
    by (simp add: long_aunt_proof_def)
  note a = VerifyDataRootInclusion_panics_iff_short
             [of accepting 105500 106 "replicate 31 7" sample_proof]
  note b = VerifyDataRootInclusion_panics_iff_short
             [of accepting 105500 106 "replicate 32 7" short_aunt_proof]
  note c = VerifyDataRootInclusion_panics_iff_short
             [of accepting 105500 106 "replicate 32 7 @ [8]" long_aunt_proof]
  have 1: "fst (VerifyDataRootInclusion accepting 105500 106 (replicate 31 7) sample_proof)
             = Panicked"
    using a short_root by blast
  have 2: "snd (VerifyDataRootInclusion accepting 105500 106 (replicate 31 7) sample_proof) = []"
    using a 1 by blast
  have 3: "fst (VerifyDataRootInclusion accepting 105500 106 (replicate 32 7) short_aunt_proof)
             = Panicked"
    using b short_aunt by blast
  have 4: "fst (VerifyDataRootInclusion accepting 105500 106 (replicate 32 7 @ [8])
                  long_aunt_proof) \<noteq> Panicked"
    using c long_ok by blast
  have 5: "snd (VerifyDataRootInclusion accepting 105500 106 (replicate 32 7 @ [8])
                  long_aunt_proof)
             = [EvVerifyAttestation 106 \<lparr>Height = 105500, DataRoot = replicate 32 7\<rparr>
                  \<lparr>SideNodes = [replicate 32 9], Key = 1, NumLeaves = 2\<rparr>]"
    using c 4 by (simp add: long_aunt_proof_def)
  from 1 2 3 4 5 show ?thesis by blast
qed

text \<open>
  C8, as the claim states it, fails: a call whose \<open>dataRoot\<close> is empty panics at the
  conversion of line 115, so the contract is never invoked and nothing is returned.
\<close>

theorem VerifyDataRootInclusion_panics_on_empty_root:
  "VerifyDataRootInclusion accepting 105500 106 [] sample_proof = (Panicked, [])"
  by (simp add: VerifyDataRootInclusion_run)

text \<open>
  C8, amended. For every call whose \<open>dataRoot\<close> and aunts all have at least 32 bytes,
  \<^verbatim>\<open>VerifyDataRootInclusion\<close> makes exactly one call, \<^verbatim>\<open>VerifyAttestation\<close> with the nonce,
  the tuple and the re-encoded proof, where the tuple's height is the height argument and
  its data root is the first 32 bytes of \<open>dataRoot\<close> (the whole of it when it has 32
  bytes), and it returns the pair \<open>(valid, err)\<close> of that call unchanged.
\<close>

theorem VerifyDataRootInclusion_calls_contract:
  assumes "32 \<le> length dataRoot" and "\<forall>a \<in> set (Aunts p). 32 \<le> length a"
  shows "VerifyDataRootInclusion wr h n dataRoot p =
           (Returned
              (wr (sint n) \<lparr>Height = sint h, DataRoot = take 32 dataRoot\<rparr>
                 \<lparr>SideNodes = map (take 32) (Aunts p), Key = sint (Index p),
                  NumLeaves = sint (Total p)\<rparr>),
            [EvVerifyAttestation (sint n) \<lparr>Height = sint h, DataRoot = take 32 dataRoot\<rparr>
               \<lparr>SideNodes = map (take 32) (Aunts p), Key = sint (Index p),
                NumLeaves = sint (Total p)\<rparr>])
         \<and> (length dataRoot = 32 \<longrightarrow> take 32 dataRoot = dataRoot)"
  using assms by (auto simp: VerifyDataRootInclusion_run not_less)

theorem VerifyDataRootInclusion_calls_contract_witness:
  "VerifyDataRootInclusion reverting 105500 106 (replicate 32 7) sample_proof =
     (Returned (False, Some (ErrorString ''execution reverted'')),
      [EvVerifyAttestation 106 \<lparr>Height = 105500, DataRoot = replicate 32 7\<rparr>
         \<lparr>SideNodes = [replicate 32 2, replicate 32 3], Key = 499, NumLeaves = 1000\<rparr>])"
proof -
  have root: "32 \<le> length (replicate 32 (7::byte))"
    by simp
  have aunts: "\<forall>a \<in> set (Aunts sample_proof). 32 \<le> length a"
    by (simp add: sample_proof_def)
  show ?thesis
    using VerifyDataRootInclusion_calls_contract [OF root aunts, of reverting 105500 106]
    by (simp add: sample_proof_def reverting_def)
qed

text \<open>
  C2, as the claim states it, fails: an aunt of 33 bytes is re-encoded as its first 32
  bytes, so the side nodes differ from the aunts and the last byte is lost.
\<close>

theorem reencoding_cuts_long_aunt:
  "snd (VerifyDataRootInclusion accepting 105500 106 (replicate 32 7) long_aunt_proof) =
     [EvVerifyAttestation 106 \<lparr>Height = 105500, DataRoot = replicate 32 7\<rparr>
        \<lparr>SideNodes = [replicate 32 9], Key = 1, NumLeaves = 2\<rparr>]
   \<and> Aunts long_aunt_proof = [replicate 32 9 @ [1]]
   \<and> [replicate 32 9] \<noteq> Aunts long_aunt_proof"
  by (simp add: VerifyDataRootInclusion_run long_aunt_proof_def)

text \<open>
  C2, amended. For every proof with which \<^verbatim>\<open>VerifyDataRootInclusion\<close> does not panic
  (\<open>dataRoot\<close> and every aunt have at least 32 bytes), the proof handed to the contract has
  as many side nodes as there are aunts, its i-th side node is the first 32 bytes of the
  i-th aunt, so the side nodes are the aunts themselves when every aunt has exactly 32
  bytes, its key is the proof's index and its leaf count the proof's total.
\<close>

theorem reencoding_keeps_order:
  assumes "32 \<le> length dataRoot" and "\<forall>a \<in> set (Aunts p). 32 \<le> length a"
  shows "\<exists>tuple wp.
           snd (VerifyDataRootInclusion wr h n dataRoot p) =
             [EvVerifyAttestation (sint n) tuple wp]
           \<and> length (SideNodes wp) = length (Aunts p)
           \<and> (\<forall>i < length (Aunts p). SideNodes wp ! i = take 32 (Aunts p ! i))
           \<and> ((\<forall>a \<in> set (Aunts p). length a = 32) \<longrightarrow> SideNodes wp = Aunts p)
           \<and> Key wp = sint (Index p)
           \<and> NumLeaves wp = sint (Total p)"
proof -
  have same: "(\<forall>a \<in> set (Aunts p). length a = 32) \<longrightarrow> map (take 32) (Aunts p) = Aunts p"
    by (simp add: map_idI)
  show ?thesis
    using assms same by (auto simp: VerifyDataRootInclusion_run not_less)
qed

theorem reencoding_keeps_order_witness:
  "\<exists>tuple wp.
     snd (VerifyDataRootInclusion accepting 105500 106 (replicate 32 7) sample_proof) =
       [EvVerifyAttestation 106 tuple wp]
     \<and> SideNodes wp = [replicate 32 2, replicate 32 3]
     \<and> SideNodes wp = Aunts sample_proof
     \<and> Key wp = 499 \<and> NumLeaves wp = 1000"
proof -
  have root: "32 \<le> length (replicate 32 (7::byte))"
    by simp
  have aunts: "\<forall>a \<in> set (Aunts sample_proof). 32 \<le> length a"
    by (simp add: sample_proof_def)
  have exact: "\<forall>a \<in> set (Aunts sample_proof). length a = 32"
    by (simp add: sample_proof_def)
  obtain tuple wp where
    ev: "snd (VerifyDataRootInclusion accepting 105500 106 (replicate 32 7) sample_proof) =
           [EvVerifyAttestation (sint (106 :: 64 word)) tuple wp]"
    and eq: "(\<forall>a \<in> set (Aunts sample_proof). length a = 32) \<longrightarrow>
               SideNodes wp = Aunts sample_proof"
    and key: "Key wp = sint (Index sample_proof)"
    and num: "NumLeaves wp = sint (Total sample_proof)"
    using reencoding_keeps_order [OF root aunts, of accepting 105500 106] by blast
  from eq exact have "SideNodes wp = Aunts sample_proof"
    by blast
  with ev key num show ?thesis
    by (simp add: sample_proof_def)
qed

section \<open>Claims about verify\<close>

text \<open>The run in which every collaborator succeeds, whatever the contract answers.\<close>

lemma sample_world_run:
  "verify (sample_world wr) =
     (Returned None,
      [EvHttpNew rpcEndpoint ''/websocket'', EvTx txHashBz True, EvBlock 105500,
       EvBlobShareRange [[1, 2, 3], [4, 5]] 1 0 1, EvProveShares 105500 2 5, EvVerifyProof,
       EvDataRootInclusionProof 105500 105001 106001, EvEthDial evmRPC,
       EvNewWrappers contractAddr,
       EvVerifyAttestation 106 \<lparr>Height = 105500, DataRoot = replicate 32 7\<rparr>
         \<lparr>SideNodes = [replicate 32 2, replicate 32 3], Key = 499, NumLeaves = 1000\<rparr>,
       EvEthClose, EvTrpcStop])"
  by (simp add: verify_connect
        verify_trpc_run [of _ _ sample_tx None sample_block None sample_range None 0 None
                            sample_proof None]
        verify_eth_run [of _ wr None]
        sample_world_def sample_tx_def sample_block_def sample_range_def sample_proof_def
        blobIndex_def dataCommitmentStartBlock_def dataCommitmentEndBlock_def
        dataCommitmentNonce_def)

text \<open>
  C1. The claim does not hold of the code: line 106 calls \<^verbatim>\<open>VerifyDataRootInclusion\<close> as a
  statement and drops both results, and line 108 returns \<^verbatim>\<open>nil\<close>. In the run below the
  contract is asked and answers \<open>(False, None)\<close>, or \<open>False\<close> with an error, and
  \<^verbatim>\<open>verify()\<close> still returns \<^verbatim>\<open>nil\<close>.
\<close>

theorem verify_succeeds_on_rejected_attestation:
  "verify (sample_world rejecting) =
     (Returned None,
      [EvHttpNew rpcEndpoint ''/websocket'', EvTx txHashBz True, EvBlock 105500,
       EvBlobShareRange [[1, 2, 3], [4, 5]] 1 0 1, EvProveShares 105500 2 5, EvVerifyProof,
       EvDataRootInclusionProof 105500 105001 106001, EvEthDial evmRPC,
       EvNewWrappers contractAddr,
       EvVerifyAttestation 106 \<lparr>Height = 105500, DataRoot = replicate 32 7\<rparr>
         \<lparr>SideNodes = [replicate 32 2, replicate 32 3], Key = 499, NumLeaves = 1000\<rparr>,
       EvEthClose, EvTrpcStop])
   \<and> rejecting 106 \<lparr>Height = 105500, DataRoot = replicate 32 7\<rparr>
         \<lparr>SideNodes = [replicate 32 2, replicate 32 3], Key = 499, NumLeaves = 1000\<rparr>
       = (False, None)
   \<and> fst (verify (sample_world reverting)) = Returned None
   \<and> reverting 106 \<lparr>Height = 105500, DataRoot = replicate 32 7\<rparr>
         \<lparr>SideNodes = [replicate 32 2, replicate 32 3], Key = 499, NumLeaves = 1000\<rparr>
       = (False, Some (ErrorString ''execution reverted''))"
  by (simp add: sample_world_run rejecting_def reverting_def)

text \<open>
  C3, as the claim states it, fails at one of the stages it lists, the share-proof check.
  In the run below the share proof is fetched without error and \<^verbatim>\<open>VerifyProof()\<close> is
  false: \<^verbatim>\<open>verify()\<close> halts with a non-nil error, but that error is built from the \<^verbatim>\<open>nil\<close>
  value of \<open>err\<close> and wraps no underlying cause.
\<close>

theorem share_check_failure_wraps_no_cause:
  "fst (verify (failing_at CheckShares)) =
     Returned (Some (ErrorString ''failed to verify share proofs: %!w(<nil>)''))
   \<and> Unwrap (ErrorString ''failed to verify share proofs: %!w(<nil>)'') = None
   \<and> trpcProveShares (failing_at CheckShares) 105500 2 5 = (1, None)
   \<and> \<not> VerifyProof (failing_at CheckShares) 1"
  by (simp add: verify_connect
        verify_trpc_run [of _ _ sample_tx None sample_block None sample_range None 1 None
                            sample_proof None]
        failing_at_def fails_def)

text \<open>
  C3, amended. Name the results of the calls of a run (the first six hypotheses only give
  names; every world has such results). Whichever stage before the attestation call is
  the first to fail, \<^verbatim>\<open>verify()\<close> returns at once a non-nil error, and the run consists of
  the calls up to that stage and the deferred releases, nothing later; in particular when
  the share-range computation fails the contract is never called. Where the stage failed
  with an error (hash decode, connection, transaction, block, share range, share-proof
  fetch, data-root inclusion proof, Ethereum dial, contract binding) the returned error
  wraps that error. Where the share-proof check returned false there is no such error:
  the returned error is the one built from \<^verbatim>\<open>nil\<close>, which wraps nothing. The decode stage
  is stated for the code after line 43, as a function of what \<^verbatim>\<open>hex.DecodeString\<close>
  returned.
\<close>

theorem verify_halts_at_first_failure:
  fixes w :: "'sp world"
  assumes "trpcTx w txHashBz True = (tx, errTx)"
    and "trpcBlock w (tx_Height tx) = (block, errBlock)"
    and "BlobShareRange w (block_Txs block) (ucast (tx_Index tx)) blobIndex
           (block_VersionApp block) = (rng, errRange)"
    and "trpcProveShares w (tx_Height tx) (range_Start rng) (range_End rng) = (sp, errShares)"
    and "trpcDataRootInclusionProof w (tx_Height tx) dataCommitmentStartBlock
           dataCommitmentEndBlock = (dc, errDc)"
    and "NewWrappers w contractAddr = (wr, errBind)"
  defines "e0 \<equiv> EvHttpNew rpcEndpoint ''/websocket''"
    and "e1 \<equiv> EvTx txHashBz True"
    and "e2 \<equiv> EvBlock (tx_Height tx)"
    and "e3 \<equiv> EvBlobShareRange (block_Txs block) (ucast (tx_Index tx)) blobIndex
                 (block_VersionApp block)"
    and "e4 \<equiv> EvProveShares (tx_Height tx) (range_Start rng) (range_End rng)"
    and "e5 \<equiv> EvVerifyProof"
    and "e6 \<equiv> EvDataRootInclusionProof (tx_Height tx) dataCommitmentStartBlock
                 dataCommitmentEndBlock"
    and "e7 \<equiv> EvEthDial evmRPC"
    and "e8 \<equiv> EvNewWrappers contractAddr"
  shows
    "verify_decoded (bz, Some e) w =
       (Returned (Some (Errorf ''failed to decode transaction hash: '' (Some e))), [])
     \<and> (httpNew w rpcEndpoint ''/websocket'' = Some e \<longrightarrow>
          verify w = (Returned (Some (Errorf ''failed to connect to Celestia: '' (Some e))),
                      [e0]))
     \<and> (httpNew w rpcEndpoint ''/websocket'' = None \<and> errTx = Some e \<longrightarrow>
          verify w = (Returned (Some (Errorf ''failed to fetch transaction: '' (Some e))),
                      [e0, e1, EvTrpcStop]))
     \<and> (httpNew w rpcEndpoint ''/websocket'' = None \<and> errTx = None \<and> errBlock = Some e \<longrightarrow>
          verify w = (Returned (Some (Errorf ''failed to fetch block: '' (Some e))),
                      [e0, e1, e2, EvTrpcStop]))
     \<and> (httpNew w rpcEndpoint ''/websocket'' = None \<and> errTx = None \<and> errBlock = None
          \<and> errRange = Some e \<longrightarrow>
          verify w = (Returned (Some (Errorf ''failed to get blob share range: '' (Some e))),
                      [e0, e1, e2, e3, EvTrpcStop])
          \<and> (\<forall>nonce tuple proof.
                EvVerifyAttestation nonce tuple proof \<notin> set (snd (verify w))))
     \<and> (httpNew w rpcEndpoint ''/websocket'' = None \<and> errTx = None \<and> errBlock = None
          \<and> errRange = None \<and> errShares = Some e \<longrightarrow>
          verify w = (Returned (Some (Errorf ''failed to get share proofs: '' (Some e))),
                      [e0, e1, e2, e3, e4, EvTrpcStop]))
     \<and> (httpNew w rpcEndpoint ''/websocket'' = None \<and> errTx = None \<and> errBlock = None
          \<and> errRange = None \<and> errShares = None \<and> \<not> VerifyProof w sp \<longrightarrow>
          verify w = (Returned (Some (Errorf ''failed to verify share proofs: '' None)),
                      [e0, e1, e2, e3, e4, e5, EvTrpcStop]))
     \<and> (httpNew w rpcEndpoint ''/websocket'' = None \<and> errTx = None \<and> errBlock = None
          \<and> errRange = None \<and> errShares = None \<and> VerifyProof w sp \<and> errDc = Some e \<longrightarrow>
          verify w =
            (Returned (Some (Errorf ''failed to generate data root inclusion proof: ''
               (Some e))),
             [e0, e1, e2, e3, e4, e5, e6, EvTrpcStop]))
     \<and> (httpNew w rpcEndpoint ''/websocket'' = None \<and> errTx = None \<and> errBlock = None
          \<and> errRange = None \<and> errShares = None \<and> VerifyProof w sp \<and> errDc = None
          \<and> ethDial w evmRPC = Some e \<longrightarrow>
          verify w =
            (Returned (Some (Errorf ''failed to connect to Ethereum client: '' (Some e))),
             [e0, e1, e2, e3, e4, e5, e6, e7, EvTrpcStop]))
     \<and> (httpNew w rpcEndpoint ''/websocket'' = None \<and> errTx = None \<and> errBlock = None
          \<and> errRange = None \<and> errShares = None \<and> VerifyProof w sp \<and> errDc = None
          \<and> ethDial w evmRPC = None \<and> errBind = Some e \<longrightarrow>
          verify w =
            (Returned (Some (Errorf ''failed to fetch BlobstreamX contract: '' (Some e))),
             [e0, e1, e2, e3, e4, e5, e6, e7, e8, EvEthClose, EvTrpcStop]))
     \<and> Unwrap (Errorf prefix (Some e)) = Some e
     \<and> Unwrap (Errorf prefix None) = None"
proof -
  note run = verify_run [OF assms(1-6)]
  have decode: "verify_decoded (bz, Some e) w =
       (Returned (Some (Errorf ''failed to decode transaction hash: '' (Some e))), [])"
    by (simp add: verify_decoded_def ret_def)
  show ?thesis
    unfolding e0_def e1_def e2_def e3_def e4_def e5_def e6_def e7_def e8_def
    using decode by (simp add: run)
qed

theorem verify_halts_at_first_failure_witness:
  "verify_decoded (hexDecodeString ''4B1'') (failing_at Connect) =
       (Returned (Some (WrapError ''failed to decode transaction hash: '' ErrLength)), [])
   \<and> verify (failing_at Connect) =
       (Returned (Some (WrapError ''failed to connect to Celestia: '' rpc_failure)),
        [EvHttpNew rpcEndpoint ''/websocket''])
   \<and> verify (failing_at FetchTx) =
       (Returned (Some (WrapError ''failed to fetch transaction: '' rpc_failure)),
        [EvHttpNew rpcEndpoint ''/websocket'', EvTx txHashBz True, EvTrpcStop])
   \<and> verify (failing_at FetchBlock) =
       (Returned (Some (WrapError ''failed to fetch block: '' rpc_failure)),
        [EvHttpNew rpcEndpoint ''/websocket'', EvTx txHashBz True, EvBlock 105500,
         EvTrpcStop])
   \<and> verify (failing_at ShareRange) =
       (Returned (Some (WrapError ''failed to get blob share range: '' rpc_failure)),
        [EvHttpNew rpcEndpoint ''/websocket'', EvTx txHashBz True, EvBlock 105500,
         EvBlobShareRange [[1, 2, 3], [4, 5]] 1 0 1, EvTrpcStop])
   \<and> verify (failing_at FetchShares) =
       (Returned (Some (WrapError ''failed to get share proofs: '' rpc_failure)),
        [EvHttpNew rpcEndpoint ''/websocket'', EvTx txHashBz True, EvBlock 105500,
         EvBlobShareRange [[1, 2, 3], [4, 5]] 1 0 1, EvProveShares 105500 2 5, EvTrpcStop])
   \<and> verify (failing_at CheckShares) =
       (Returned (Some (ErrorString ''failed to verify share proofs: %!w(<nil>)'')),
        [EvHttpNew rpcEndpoint ''/websocket'', EvTx txHashBz True, EvBlock 105500,
         EvBlobShareRange [[1, 2, 3], [4, 5]] 1 0 1, EvProveShares 105500 2 5,
         EvVerifyProof, EvTrpcStop])
   \<and> verify (failing_at FetchDataRootProof) =
       (Returned (Some (WrapError ''failed to generate data root inclusion proof: '' rpc_failure)),
        [EvHttpNew rpcEndpoint ''/websocket'', EvTx txHashBz True, EvBlock 105500,
         EvBlobShareRange [[1, 2, 3], [4, 5]] 1 0 1, EvProveShares 105500 2 5,
         EvVerifyProof, EvDataRootInclusionProof 105500 105001 106001, EvTrpcStop])
   \<and> verify (failing_at Dial) =
       (Returned (Some (WrapError ''failed to connect to Ethereum client: '' rpc_failure)),
        [EvHttpNew rpcEndpoint ''/websocket'', EvTx txHashBz True, EvBlock 105500,
         EvBlobShareRange [[1, 2, 3], [4, 5]] 1 0 1, EvProveShares 105500 2 5,
         EvVerifyProof, EvDataRootInclusionProof 105500 105001 106001, EvEthDial evmRPC,
         EvTrpcStop])
   \<and> verify (failing_at Bind) =
       (Returned (Some (WrapError ''failed to fetch BlobstreamX contract: '' rpc_failure)),
        [EvHttpNew rpcEndpoint ''/websocket'', EvTx txHashBz True, EvBlock 105500,
         EvBlobShareRange [[1, 2, 3], [4, 5]] 1 0 1, EvProveShares 105500 2 5,
         EvVerifyProof, EvDataRootInclusionProof 105500 105001 106001, EvEthDial evmRPC,
         EvNewWrappers contractAddr, EvEthClose, EvTrpcStop])
   \<and> EvVerifyAttestation 106 \<lparr>Height = 105500, DataRoot = replicate 32 7\<rparr>
         \<lparr>SideNodes = [replicate 32 2, replicate 32 3], Key = 499, NumLeaves = 1000\<rparr>
       \<notin> set (snd (verify (failing_at ShareRange)))"
proof -
  have dec: "hexDecodeString ''4B1'' = ([0x4B], Some ErrLength)"
    by (simp add: hexDecodeString_def fromHexChar_def)
  have s0: "verify_decoded (hexDecodeString ''4B1'') (failing_at Connect) =
       (Returned (Some (WrapError ''failed to decode transaction hash: '' ErrLength)), [])"
    using verify_halts_at_first_failure
            [where w = "failing_at Connect" and tx = sample_tx and errTx = None
               and block = sample_block and errBlock = None and rng = sample_range
               and errRange = None and sp = 0 and errShares = None and dc = sample_proof
               and errDc = None and wr = accepting and errBind = None
               and bz = "[0x4B]" and e = ErrLength]
    by (simp add: dec failing_at_def fails_def)
  have s1: "verify (failing_at Connect) =
       (Returned (Some (WrapError ''failed to connect to Celestia: '' rpc_failure)),
        [EvHttpNew rpcEndpoint ''/websocket''])"
    using verify_halts_at_first_failure
            [where w = "failing_at Connect" and tx = sample_tx and errTx = "None"
               and block = sample_block and errBlock = "None" and rng = sample_range
               and errRange = "None" and sp = 0 and errShares = "None"
               and dc = sample_proof and errDc = "None" and wr = accepting
               and errBind = "None" and e = rpc_failure]
    by (simp add: failing_at_def fails_def sample_tx_def sample_block_def sample_range_def
          sample_proof_def blobIndex_def dataCommitmentStartBlock_def
          dataCommitmentEndBlock_def)
  have s2: "verify (failing_at FetchTx) =
       (Returned (Some (WrapError ''failed to fetch transaction: '' rpc_failure)),
        [EvHttpNew rpcEndpoint ''/websocket'', EvTx txHashBz True, EvTrpcStop])"
    using verify_halts_at_first_failure
            [where w = "failing_at FetchTx" and tx = sample_tx and errTx = "Some rpc_failure"
               and block = sample_block and errBlock = "None" and rng = sample_range
               and errRange = "None" and sp = 0 and errShares = "None"
               and dc = sample_proof and errDc = "None" and wr = accepting
               and errBind = "None" and e = rpc_failure]
    by (simp add: failing_at_def fails_def sample_tx_def sample_block_def sample_range_def
          sample_proof_def blobIndex_def dataCommitmentStartBlock_def
          dataCommitmentEndBlock_def)
  have s3: "verify (failing_at FetchBlock) =
       (Returned (Some (WrapError ''failed to fetch block: '' rpc_failure)),
        [EvHttpNew rpcEndpoint ''/websocket'', EvTx txHashBz True, EvBlock 105500,
         EvTrpcStop])"
    using verify_halts_at_first_failure
            [where w = "failing_at FetchBlock" and tx = sample_tx and errTx = "None"
               and block = sample_block and errBlock = "Some rpc_failure" and rng = sample_range
               and errRange = "None" and sp = 0 and errShares = "None"
               and dc = sample_proof and errDc = "None" and wr = accepting
               and errBind = "None" and e = rpc_failure]
    by (simp add: failing_at_def fails_def sample_tx_def sample_block_def sample_range_def
          sample_proof_def blobIndex_def dataCommitmentStartBlock_def
          dataCommitmentEndBlock_def)
  have s4: "verify (failing_at ShareRange) =
       (Returned (Some (WrapError ''failed to get blob share range: '' rpc_failure)),
        [EvHttpNew rpcEndpoint ''/websocket'', EvTx txHashBz True, EvBlock 105500,
         EvBlobShareRange [[1, 2, 3], [4, 5]] 1 0 1, EvTrpcStop])"
    using verify_halts_at_first_failure
            [where w = "failing_at ShareRange" and tx = sample_tx and errTx = "None"
               and block = sample_block and errBlock = "None" and rng = sample_range
               and errRange = "Some rpc_failure" and sp = 0 and errShares = "None"
               and dc = sample_proof and errDc = "None" and wr = accepting
               and errBind = "None" and e = rpc_failure]
    by (simp add: failing_at_def fails_def sample_tx_def sample_block_def sample_range_def
          sample_proof_def blobIndex_def dataCommitmentStartBlock_def
          dataCommitmentEndBlock_def)
  have s5: "verify (failing_at FetchShares) =
       (Returned (Some (WrapError ''failed to get share proofs: '' rpc_failure)),
        [EvHttpNew rpcEndpoint ''/websocket'', EvTx txHashBz True, EvBlock 105500,
         EvBlobShareRange [[1, 2, 3], [4, 5]] 1 0 1, EvProveShares 105500 2 5, EvTrpcStop])"
    using verify_halts_at_first_failure
            [where w = "failing_at FetchShares" and tx = sample_tx and errTx = "None"
               and block = sample_block and errBlock = "None" and rng = sample_range
               and errRange = "None" and sp = 0 and errShares = "Some rpc_failure"
               and dc = sample_proof and errDc = "None" and wr = accepting
               and errBind = "None" and e = rpc_failure]
    by (simp add: failing_at_def fails_def sample_tx_def sample_block_def sample_range_def
          sample_proof_def blobIndex_def dataCommitmentStartBlock_def
          dataCommitmentEndBlock_def)
  have s6: "verify (failing_at CheckShares) =
       (Returned (Some (ErrorString ''failed to verify share proofs: %!w(<nil>)'')),
        [EvHttpNew rpcEndpoint ''/websocket'', EvTx txHashBz True, EvBlock 105500,
         EvBlobShareRange [[1, 2, 3], [4, 5]] 1 0 1, EvProveShares 105500 2 5,
         EvVerifyProof, EvTrpcStop])"
    using verify_halts_at_first_failure
            [where w = "failing_at CheckShares" and tx = sample_tx and errTx = "None"
               and block = sample_block and errBlock = "None" and rng = sample_range
               and errRange = "None" and sp = 1 and errShares = "None"
               and dc = sample_proof and errDc = "None" and wr = accepting
               and errBind = "None" and e = rpc_failure]
    by (simp add: failing_at_def fails_def sample_tx_def sample_block_def sample_range_def
          sample_proof_def blobIndex_def dataCommitmentStartBlock_def
          dataCommitmentEndBlock_def)
  have s7: "verify (failing_at FetchDataRootProof) =
       (Returned (Some (WrapError ''failed to generate data root inclusion proof: '' rpc_failure)),
        [EvHttpNew rpcEndpoint ''/websocket'', EvTx txHashBz True, EvBlock 105500,
         EvBlobShareRange [[1, 2, 3], [4, 5]] 1 0 1, EvProveShares 105500 2 5,
         EvVerifyProof, EvDataRootInclusionProof 105500 105001 106001, EvTrpcStop])"
    using verify_halts_at_first_failure
            [where w = "failing_at FetchDataRootProof" and tx = sample_tx and errTx = "None"
               and block = sample_block and errBlock = "None" and rng = sample_range
               and errRange = "None" and sp = 0 and errShares = "None"
               and dc = sample_proof and errDc = "Some rpc_failure" and wr = accepting
               and errBind = "None" and e = rpc_failure]
    by (simp add: failing_at_def fails_def sample_tx_def sample_block_def sample_range_def
          sample_proof_def blobIndex_def dataCommitmentStartBlock_def
          dataCommitmentEndBlock_def)
  have s8: "verify (failing_at Dial) =
       (Returned (Some (WrapError ''failed to connect to Ethereum client: '' rpc_failure)),
        [EvHttpNew rpcEndpoint ''/websocket'', EvTx txHashBz True, EvBlock 105500,
         EvBlobShareRange [[1, 2, 3], [4, 5]] 1 0 1, EvProveShares 105500 2 5,
         EvVerifyProof, EvDataRootInclusionProof 105500 105001 106001, EvEthDial evmRPC,
         EvTrpcStop])"
    using verify_halts_at_first_failure
            [where w = "failing_at Dial" and tx = sample_tx and errTx = "None"
               and block = sample_block and errBlock = "None" and rng = sample_range
               and errRange = "None" and sp = 0 and errShares = "None"
               and dc = sample_proof and errDc = "None" and wr = accepting
               and errBind = "None" and e = rpc_failure]
    by (simp add: failing_at_def fails_def sample_tx_def sample_block_def sample_range_def
          sample_proof_def blobIndex_def dataCommitmentStartBlock_def
          dataCommitmentEndBlock_def)
  have s9: "verify (failing_at Bind) =
       (Returned (Some (WrapError ''failed to fetch BlobstreamX contract: '' rpc_failure)),
        [EvHttpNew rpcEndpoint ''/websocket'', EvTx txHashBz True, EvBlock 105500,
         EvBlobShareRange [[1, 2, 3], [4, 5]] 1 0 1, EvProveShares 105500 2 5,
         EvVerifyProof, EvDataRootInclusionProof 105500 105001 106001, EvEthDial evmRPC,
         EvNewWrappers contractAddr, EvEthClose, EvTrpcStop])"
    using verify_halts_at_first_failure
            [where w = "failing_at Bind" and tx = sample_tx and errTx = "None"
               and block = sample_block and errBlock = "None" and rng = sample_range
               and errRange = "None" and sp = 0 and errShares = "None"
               and dc = sample_proof and errDc = "None" and wr = accepting
               and errBind = "Some rpc_failure" and e = rpc_failure]
    by (simp add: failing_at_def fails_def sample_tx_def sample_block_def sample_range_def
          sample_proof_def blobIndex_def dataCommitmentStartBlock_def
          dataCommitmentEndBlock_def)
  have s10: "EvVerifyAttestation 106 \<lparr>Height = 105500, DataRoot = replicate 32 7\<rparr>
         \<lparr>SideNodes = [replicate 32 2, replicate 32 3], Key = 499, NumLeaves = 1000\<rparr>
       \<notin> set (snd (verify (failing_at ShareRange)))"
    using verify_halts_at_first_failure
            [where w = "failing_at ShareRange" and tx = sample_tx and errTx = None
               and block = sample_block and errBlock = None and rng = sample_range
               and errRange = "Some rpc_failure" and sp = 0 and errShares = None
               and dc = sample_proof and errDc = None and wr = accepting
               and errBind = None and e = rpc_failure]
    by (simp add: failing_at_def fails_def)
  from s0 s1 s2 s3 s4 s5 s6 s7 s8 s9 s10 show ?thesis
    by blast
qed

text \<open>
  C10. The constant \<open>txHash\<close> has 64 characters and \<^verbatim>\<open>hex.DecodeString\<close> decodes it to 32
  bytes without error, so no run of \<^verbatim>\<open>verify()\<close> returns the decode error of line 45:
  every run goes on to open the connection of line 49.
\<close>

theorem txHash_always_decodes:
  fixes w :: "'sp world"
  shows "length txHash = 64
     \<and> hexDecodeString txHash =
         ([0x4B, 0x12, 0x24, 0x52, 0xFA, 0x67, 0x9F, 0x15, 0xB4, 0x58, 0x27, 0x15, 0x12, 0x81,
           0x6B, 0x93, 0x38, 0x03, 0xD5, 0x87, 0x09, 0x19, 0xF6, 0x79, 0x69, 0xB4, 0xD6, 0x22,
           0x21, 0xD7, 0x03, 0x46], None)
     \<and> (\<forall>cause. fst (verify w) \<noteq>
            Returned (Some (Errorf ''failed to decode transaction hash: '' cause)))
     \<and> (\<exists>rest. snd (verify w) = EvHttpNew rpcEndpoint ''/websocket'' # rest)"
proof -
  obtain tx errTx block errBlock rng errRange sp errShares dc errDc wr errBind where
    r: "trpcTx w txHashBz True = (tx, errTx)"
       "trpcBlock w (tx_Height tx) = (block, errBlock)"
       "BlobShareRange w (block_Txs block) (ucast (tx_Index tx)) blobIndex
           (block_VersionApp block) = (rng, errRange)"
       "trpcProveShares w (tx_Height tx) (range_Start rng) (range_End rng) = (sp, errShares)"
       "trpcDataRootInclusionProof w (tx_Height tx) dataCommitmentStartBlock
           dataCommitmentEndBlock = (dc, errDc)"
       "NewWrappers w contractAddr = (wr, errBind)"
    by (rule name_results)
  note run = verify_run [OF r]
  have len: "length txHash = 64"
    by (simp add: txHash_def)
  have never: "fst (verify w) \<noteq>
                 Returned (Some (Errorf ''failed to decode transaction hash: '' cause))"
    for cause
    by (cases cause) (simp_all add: run split: option.splits)
  have first: "\<exists>rest. snd (verify w) = EvHttpNew rpcEndpoint ''/websocket'' # rest"
    by (simp add: run split: option.splits)
  from len never first show ?thesis
    by (simp add: hexDecodeString_txHash)
qed

text \<open>
  C4. In every run that reaches the share-proof check (the connection, the transaction,
  the block, the share range and the share proof were all obtained): if
  \<^verbatim>\<open>VerifyProof()\<close> is false, \<^verbatim>\<open>verify()\<close> returns a non-nil error and the run ends there,
  with one \<^verbatim>\<open>ProveShares\<close> call, one check and the deferred \<^verbatim>\<open>Stop\<close>, so nothing is retried
  and no other range is tried; if it is true, the next call is the request for the
  data-root inclusion proof.
\<close>

theorem share_proof_check_decides:
  fixes w :: "'sp world"
  assumes "httpNew w rpcEndpoint ''/websocket'' = None"
    and "trpcTx w txHashBz True = (tx, None)"
    and "trpcBlock w (tx_Height tx) = (block, None)"
    and "BlobShareRange w (block_Txs block) (ucast (tx_Index tx)) blobIndex
           (block_VersionApp block) = (rng, None)"
    and "trpcProveShares w (tx_Height tx) (range_Start rng) (range_End rng) = (sp, None)"
  defines "reached \<equiv>
     [EvHttpNew rpcEndpoint ''/websocket'', EvTx txHashBz True, EvBlock (tx_Height tx),
      EvBlobShareRange (block_Txs block) (ucast (tx_Index tx)) blobIndex
        (block_VersionApp block),
      EvProveShares (tx_Height tx) (range_Start rng) (range_End rng), EvVerifyProof]"
  shows "(\<not> VerifyProof w sp \<longrightarrow>
            (\<exists>e. fst (verify w) = Returned (Some e))
            \<and> snd (verify w) = reached @ [EvTrpcStop])
       \<and> (VerifyProof w sp \<longrightarrow>
            (\<exists>rest. snd (verify w) =
               reached @ [EvDataRootInclusionProof (tx_Height tx) dataCommitmentStartBlock
                            dataCommitmentEndBlock] @ rest))"
proof -
  obtain dc errDc where
    dc: "trpcDataRootInclusionProof w (tx_Height tx) dataCommitmentStartBlock
           dataCommitmentEndBlock = (dc, errDc)"
    by (metis surj_pair)
  obtain wr errBind where bind: "NewWrappers w contractAddr = (wr, errBind)"
    by (metis surj_pair)
  note run = verify_run [OF assms(2-5) dc bind]
  show ?thesis
    unfolding reached_def using assms(1) by (simp add: run split: option.splits)
qed

theorem share_proof_check_decides_witness:
  "(\<exists>e. fst (verify (failing_at CheckShares)) = Returned (Some e))
   \<and> snd (verify (failing_at CheckShares)) =
       [EvHttpNew rpcEndpoint ''/websocket'', EvTx txHashBz True, EvBlock 105500,
        EvBlobShareRange [[1, 2, 3], [4, 5]] 1 0 1, EvProveShares 105500 2 5, EvVerifyProof,
        EvTrpcStop]
   \<and> (\<exists>rest. snd (verify (sample_world accepting)) =
         [EvHttpNew rpcEndpoint ''/websocket'', EvTx txHashBz True, EvBlock 105500,
          EvBlobShareRange [[1, 2, 3], [4, 5]] 1 0 1, EvProveShares 105500 2 5,
          EvVerifyProof, EvDataRootInclusionProof 105500 105001 106001] @ rest)"
proof -
  have bad: "\<not> VerifyProof (failing_at CheckShares) (1 :: nat)"
    by (simp add: failing_at_def)
  have good: "VerifyProof (sample_world accepting) (0 :: nat)"
    by (simp add: sample_world_def)
  have a: "(\<exists>e. fst (verify (failing_at CheckShares)) = Returned (Some e))
           \<and> snd (verify (failing_at CheckShares)) =
               [EvHttpNew rpcEndpoint ''/websocket'', EvTx txHashBz True, EvBlock 105500,
                EvBlobShareRange [[1, 2, 3], [4, 5]] 1 0 1, EvProveShares 105500 2 5,
                EvVerifyProof, EvTrpcStop]"
    using bad share_proof_check_decides
            [where w = "failing_at CheckShares" and tx = sample_tx and block = sample_block
               and rng = sample_range and sp = 1]
    by (simp add: failing_at_def fails_def sample_tx_def sample_block_def sample_range_def
          blobIndex_def)
  have b: "\<exists>rest. snd (verify (sample_world accepting)) =
         [EvHttpNew rpcEndpoint ''/websocket'', EvTx txHashBz True, EvBlock 105500,
          EvBlobShareRange [[1, 2, 3], [4, 5]] 1 0 1, EvProveShares 105500 2 5,
          EvVerifyProof, EvDataRootInclusionProof 105500 105001 106001] @ rest"
    using good share_proof_check_decides
            [where w = "sample_world accepting" and tx = sample_tx and block = sample_block
               and rng = sample_range and sp = 0]
    by (simp add: sample_world_def sample_tx_def sample_block_def sample_range_def
          blobIndex_def dataCommitmentStartBlock_def dataCommitmentEndBlock_def)
  from a b show ?thesis
    by blast
qed

text \<open>
  C5. \<open>errShares\<close> is the value of the variable \<open>err\<close> after \<^verbatim>\<open>ProveShares\<close>. When it is not
  \<^verbatim>\<open>nil\<close> the run returns before the check, so \<^verbatim>\<open>VerifyProof()\<close> is never called. When the
  check is made and fails, \<open>err\<close> is \<^verbatim>\<open>nil\<close>, the error returned is the one built from it,
  and that error wraps nothing. And whenever \<^verbatim>\<open>verify()\<close> returns the verification-failed
  error at all, its cause is \<^verbatim>\<open>nil\<close> and the run is one whose check failed.
\<close>

theorem share_check_error_wraps_nil:
  fixes w :: "'sp world"
  assumes "trpcTx w txHashBz True = (tx, errTx)"
    and "trpcBlock w (tx_Height tx) = (block, errBlock)"
    and "BlobShareRange w (block_Txs block) (ucast (tx_Index tx)) blobIndex
           (block_VersionApp block) = (rng, errRange)"
    and "trpcProveShares w (tx_Height tx) (range_Start rng) (range_End rng) = (sp, errShares)"
  shows "(errShares \<noteq> None \<longrightarrow> EvVerifyProof \<notin> set (snd (verify w)))
       \<and> (EvVerifyProof \<in> set (snd (verify w)) \<and> \<not> VerifyProof w sp \<longrightarrow>
            errShares = None
            \<and> fst (verify w) =
                Returned (Some (Errorf ''failed to verify share proofs: '' errShares))
            \<and> Unwrap (Errorf ''failed to verify share proofs: '' errShares) = None)
       \<and> (fst (verify w) = Returned (Some (Errorf ''failed to verify share proofs: '' cause))
            \<longrightarrow> cause = None \<and> EvVerifyProof \<in> set (snd (verify w)) \<and> \<not> VerifyProof w sp)"
proof -
  obtain dc errDc where
    dc: "trpcDataRootInclusionProof w (tx_Height tx) dataCommitmentStartBlock
           dataCommitmentEndBlock = (dc, errDc)"
    by (metis surj_pair)
  obtain wr errBind where bind: "NewWrappers w contractAddr = (wr, errBind)"
    by (metis surj_pair)
  note run = verify_run [OF assms(1-4) dc bind]
  have 1: "errShares \<noteq> None \<longrightarrow> EvVerifyProof \<notin> set (snd (verify w))"
    by (simp add: run split: option.splits)
  have 2: "EvVerifyProof \<in> set (snd (verify w)) \<and> \<not> VerifyProof w sp \<longrightarrow>
            errShares = None
            \<and> fst (verify w) =
                Returned (Some (Errorf ''failed to verify share proofs: '' errShares))
            \<and> Unwrap (Errorf ''failed to verify share proofs: '' errShares) = None"
    by (simp add: run split: option.splits)
  have 3: "fst (verify w) = Returned (Some (Errorf ''failed to verify share proofs: '' cause))
            \<longrightarrow> cause = None \<and> EvVerifyProof \<in> set (snd (verify w)) \<and> \<not> VerifyProof w sp"
    by (cases cause) (simp_all add: run split: option.splits)
  from 1 2 3 show ?thesis
    by blast
qed

theorem share_check_error_wraps_nil_witness:
  "EvVerifyProof \<notin> set (snd (verify (failing_at FetchShares)))
   \<and> EvVerifyProof \<in> set (snd (verify (failing_at CheckShares)))
   \<and> fst (verify (failing_at CheckShares)) =
       Returned (Some (Errorf ''failed to verify share proofs: '' None))
   \<and> Unwrap (Errorf ''failed to verify share proofs: '' None) = None"
proof -
  have reached: "EvVerifyProof \<in> set (snd (verify (failing_at CheckShares)))"
    by (simp add: verify_connect
          verify_trpc_run [of _ _ sample_tx None sample_block None sample_range None 1 None
                              sample_proof None]
          failing_at_def fails_def)
  have bad: "\<not> VerifyProof (failing_at CheckShares) (1 :: nat)"
    by (simp add: failing_at_def)
  have a: "EvVerifyProof \<notin> set (snd (verify (failing_at FetchShares)))"
    using share_check_error_wraps_nil
            [where w = "failing_at FetchShares" and tx = sample_tx and errTx = None
               and block = sample_block and errBlock = None and rng = sample_range
               and errRange = None and sp = 0 and errShares = "Some rpc_failure"]
    by (simp add: failing_at_def fails_def)
  have b: "fst (verify (failing_at CheckShares)) =
             Returned (Some (Errorf ''failed to verify share proofs: '' None))
           \<and> Unwrap (Errorf ''failed to verify share proofs: '' None) = None"
    using reached bad share_check_error_wraps_nil
            [where w = "failing_at CheckShares" and tx = sample_tx and errTx = None
               and block = sample_block and errBlock = None and rng = sample_range
               and errRange = None and sp = 1 and errShares = None and cause = None]
    by (simp add: failing_at_def fails_def)
  from reached a b show ?thesis
    by blast
qed

text \<open>
  C6, as the claim states it, fails: the Ethereum client is not acquired at startup. In
  the run in which the block cannot be fetched, \<^verbatim>\<open>ethclient.Dial\<close> of line 92 is never
  reached, so that connection is neither opened nor closed.
\<close>

theorem eth_client_not_acquired_on_early_exit:
  "verify (failing_at FetchBlock) =
     (Returned (Some (WrapError ''failed to fetch block: '' rpc_failure)),
      [EvHttpNew rpcEndpoint ''/websocket'', EvTx txHashBz True, EvBlock 105500, EvTrpcStop])
   \<and> EvEthDial evmRPC \<notin> set (snd (verify (failing_at FetchBlock)))
   \<and> EvEthClose \<notin> set (snd (verify (failing_at FetchBlock)))"
  by (simp add: verify_connect
        verify_trpc_run [of _ _ sample_tx None sample_block "Some rpc_failure" sample_range
                            None 0 None sample_proof None]
        failing_at_def fails_def sample_tx_def)

text \<open>
  C6, amended. In every run, however it ends (an error, \<^verbatim>\<open>nil\<close> or a panic): the releases
  come after all other calls; the Ethereum client is closed exactly when
  \<^verbatim>\<open>ethclient.Dial\<close> was called and succeeded, and the data-availability client is stopped
  exactly when \<^verbatim>\<open>http.New\<close> succeeded, each once and in that order; \<^verbatim>\<open>http.New\<close> is the
  first call of every run, while \<^verbatim>\<open>ethclient.Dial\<close>, when it is called at all, is the
  eighth call, right after the request for the data-root inclusion proof.
\<close>

theorem connections_released_when_acquired:
  fixes w :: "'sp world"
  shows "snd (verify w) =
           filter (\<lambda>ev. \<not> is_release ev) (snd (verify w)) @ filter is_release (snd (verify w))
       \<and> filter is_release (snd (verify w)) =
           (if EvEthDial evmRPC \<in> set (snd (verify w)) \<and> ethDial w evmRPC = None
            then [EvEthClose] else [])
           @ (if httpNew w rpcEndpoint ''/websocket'' = None then [EvTrpcStop] else [])
       \<and> (\<exists>rest. snd (verify w) = EvHttpNew rpcEndpoint ''/websocket'' # rest)
       \<and> (EvEthDial evmRPC \<in> set (snd (verify w)) \<longrightarrow>
            snd (verify w) ! 7 = EvEthDial evmRPC
            \<and> (\<exists>height. snd (verify w) ! 6 =
                  EvDataRootInclusionProof height dataCommitmentStartBlock
                    dataCommitmentEndBlock))"
proof -
  obtain tx errTx block errBlock rng errRange sp errShares dc errDc wr errBind where
    r: "trpcTx w txHashBz True = (tx, errTx)"
       "trpcBlock w (tx_Height tx) = (block, errBlock)"
       "BlobShareRange w (block_Txs block) (ucast (tx_Index tx)) blobIndex
           (block_VersionApp block) = (rng, errRange)"
       "trpcProveShares w (tx_Height tx) (range_Start rng) (range_End rng) = (sp, errShares)"
       "trpcDataRootInclusionProof w (tx_Height tx) dataCommitmentStartBlock
           dataCommitmentEndBlock = (dc, errDc)"
       "NewWrappers w contractAddr = (wr, errBind)"
    by (rule name_results)
  note shape = verify_trace [OF r]
  have 1: "snd (verify w) =
           filter (\<lambda>ev. \<not> is_release ev) (snd (verify w)) @ filter is_release (snd (verify w))"
    using shape by (elim disjE conjE; simp add: is_release_def)
  have 2: "filter is_release (snd (verify w)) =
           (if EvEthDial evmRPC \<in> set (snd (verify w)) \<and> ethDial w evmRPC = None
            then [EvEthClose] else [])
           @ (if httpNew w rpcEndpoint ''/websocket'' = None then [EvTrpcStop] else [])"
    using shape by (elim disjE conjE; simp add: is_release_def)
  have 3: "\<exists>rest. snd (verify w) = EvHttpNew rpcEndpoint ''/websocket'' # rest"
    using shape by (elim disjE conjE; simp)
  have 4: "EvEthDial evmRPC \<in> set (snd (verify w)) \<longrightarrow>
            snd (verify w) ! 7 = EvEthDial evmRPC
            \<and> (\<exists>height. snd (verify w) ! 6 =
                  EvDataRootInclusionProof height dataCommitmentStartBlock
                    dataCommitmentEndBlock)"
    using shape by (elim disjE conjE; simp)
  from 1 2 3 4 show ?thesis
    by blast
qed

theorem connections_released_when_acquired_witness:
  "filter is_release (snd (verify (sample_world accepting))) = [EvEthClose, EvTrpcStop]
   \<and> snd (verify (sample_world accepting)) ! 7 = EvEthDial evmRPC
   \<and> (\<exists>height. snd (verify (sample_world accepting)) ! 6 =
         EvDataRootInclusionProof height dataCommitmentStartBlock dataCommitmentEndBlock)
   \<and> filter is_release (snd (verify (failing_at Dial))) = [EvTrpcStop]
   \<and> filter is_release (snd (verify (failing_at Connect))) = []"
proof -
  have dialled: "EvEthDial evmRPC \<in> set (snd (verify (sample_world accepting)))"
    by (simp add: sample_world_run)
  have a: "filter is_release (snd (verify (sample_world accepting))) = [EvEthClose, EvTrpcStop]
           \<and> snd (verify (sample_world accepting)) ! 7 = EvEthDial evmRPC
           \<and> (\<exists>height. snd (verify (sample_world accepting)) ! 6 =
                 EvDataRootInclusionProof height dataCommitmentStartBlock
                   dataCommitmentEndBlock)"
    using dialled connections_released_when_acquired [of "sample_world accepting"]
    by (simp add: sample_world_def)
  have b: "filter is_release (snd (verify (failing_at Dial))) = [EvTrpcStop]"
    using connections_released_when_acquired [of "failing_at Dial"]
    by (simp add: failing_at_def fails_def)
  have undialled: "EvEthDial evmRPC \<notin> set (snd (verify (failing_at Connect)))"
    by (simp add: verify_connect failing_at_def fails_def)
  have c: "filter is_release (snd (verify (failing_at Connect))) = []"
    using undialled connections_released_when_acquired [of "failing_at Connect"]
    by (simp add: failing_at_def fails_def)
  from a b c show ?thesis
    by blast
qed

text \<open>
  C7. With \<open>tx\<close> the transaction returned for the decoded hash, \<open>block\<close> the block at its
  height and \<open>rng\<close> the share range computed from them: a \<^verbatim>\<open>ProveShares\<close> request in a
  run has the arguments (height of \<open>tx\<close>, start of \<open>rng\<close>, end of \<open>rng\<close>) and no others, a
  \<^verbatim>\<open>DataRootInclusionProof\<close> request has the arguments (height of \<open>tx\<close>, 105001, 106001)
  and no others, and each request is made once the stages before it have succeeded.
\<close>

theorem proof_requests_use_located_height_and_range:
  fixes w :: "'sp world"
  assumes "trpcTx w txHashBz True = (tx, errTx)"
    and "trpcBlock w (tx_Height tx) = (block, errBlock)"
    and "BlobShareRange w (block_Txs block) (ucast (tx_Index tx)) blobIndex
           (block_VersionApp block) = (rng, errRange)"
    and "trpcProveShares w (tx_Height tx) (range_Start rng) (range_End rng) = (sp, errShares)"
  shows "(EvProveShares h s e \<in> set (snd (verify w)) \<longrightarrow>
            h = tx_Height tx \<and> s = range_Start rng \<and> e = range_End rng)
       \<and> (EvDataRootInclusionProof h a b \<in> set (snd (verify w)) \<longrightarrow>
            h = tx_Height tx \<and> a = dataCommitmentStartBlock \<and> b = dataCommitmentEndBlock)
       \<and> (httpNew w rpcEndpoint ''/websocket'' = None \<and> errTx = None \<and> errBlock = None
            \<and> errRange = None \<longrightarrow>
            EvProveShares (tx_Height tx) (range_Start rng) (range_End rng)
              \<in> set (snd (verify w)))
       \<and> (httpNew w rpcEndpoint ''/websocket'' = None \<and> errTx = None \<and> errBlock = None
            \<and> errRange = None \<and> errShares = None \<and> VerifyProof w sp \<longrightarrow>
            EvDataRootInclusionProof (tx_Height tx) dataCommitmentStartBlock
              dataCommitmentEndBlock \<in> set (snd (verify w)))
       \<and> dataCommitmentStartBlock = 105001 \<and> dataCommitmentEndBlock = 106001"
proof -
  obtain dc errDc where
    dc: "trpcDataRootInclusionProof w (tx_Height tx) dataCommitmentStartBlock
           dataCommitmentEndBlock = (dc, errDc)"
    by (metis surj_pair)
  obtain wr errBind where bind: "NewWrappers w contractAddr = (wr, errBind)"
    by (metis surj_pair)
  note shape = verify_trace [OF assms dc bind]
  note run = verify_run [OF assms dc bind]
  have 1: "EvProveShares h s e \<in> set (snd (verify w)) \<longrightarrow>
            h = tx_Height tx \<and> s = range_Start rng \<and> e = range_End rng"
    using shape by (elim disjE conjE; simp)
  have 2: "EvDataRootInclusionProof h a b \<in> set (snd (verify w)) \<longrightarrow>
            h = tx_Height tx \<and> a = dataCommitmentStartBlock \<and> b = dataCommitmentEndBlock"
    using shape by (elim disjE conjE; simp)
  have 3: "httpNew w rpcEndpoint ''/websocket'' = None \<and> errTx = None \<and> errBlock = None
            \<and> errRange = None \<longrightarrow>
            EvProveShares (tx_Height tx) (range_Start rng) (range_End rng)
              \<in> set (snd (verify w))"
    by (simp add: run split: option.splits)
  have 4: "httpNew w rpcEndpoint ''/websocket'' = None \<and> errTx = None \<and> errBlock = None
            \<and> errRange = None \<and> errShares = None \<and> VerifyProof w sp \<longrightarrow>
            EvDataRootInclusionProof (tx_Height tx) dataCommitmentStartBlock
              dataCommitmentEndBlock \<in> set (snd (verify w))"
    by (simp add: run split: option.splits)
  from 1 2 3 4 show ?thesis
    by (simp add: dataCommitmentStartBlock_def dataCommitmentEndBlock_def)
qed

theorem proof_requests_use_located_height_and_range_witness:
  "EvProveShares 105500 2 5 \<in> set (snd (verify (sample_world accepting)))
   \<and> EvDataRootInclusionProof 105500 105001 106001 \<in> set (snd (verify (sample_world accepting)))
   \<and> EvProveShares 105500 3 5 \<notin> set (snd (verify (sample_world accepting)))
   \<and> EvDataRootInclusionProof 105500 105001 106000
       \<notin> set (snd (verify (sample_world accepting)))"
proof -
  note inst = proof_requests_use_located_height_and_range
                [where w = "sample_world accepting" and tx = sample_tx and errTx = None
                   and block = sample_block and errBlock = None and rng = sample_range
                   and errRange = None and sp = 0 and errShares = None]
  have a: "EvProveShares 105500 2 5 \<in> set (snd (verify (sample_world accepting)))
           \<and> EvDataRootInclusionProof 105500 105001 106001
               \<in> set (snd (verify (sample_world accepting)))"
    using inst [where h = 105500 and s = 2 and e = 5 and a = 105001 and b = 106001]
    by (simp add: sample_world_def sample_tx_def sample_block_def sample_range_def
          blobIndex_def dataCommitmentStartBlock_def dataCommitmentEndBlock_def)
  have b: "EvProveShares 105500 3 5 \<notin> set (snd (verify (sample_world accepting)))"
    using inst [where h = 105500 and s = 3 and e = 5 and a = 105001 and b = 106001]
    by (simp add: sample_world_def sample_tx_def sample_block_def sample_range_def
          blobIndex_def)
  have c: "EvDataRootInclusionProof 105500 105001 106000
             \<notin> set (snd (verify (sample_world accepting)))"
    using inst [where h = 105500 and s = 2 and e = 5 and a = 105001 and b = 106000]
    by (simp add: sample_world_def sample_tx_def sample_block_def sample_range_def
          blobIndex_def dataCommitmentStartBlock_def dataCommitmentEndBlock_def)
  from a b c show ?thesis
    by blast
qed

end
